theory Spec2Isabelle
  imports Complex_Main
begin

section \<open>Strings\<close>

text \<open>
  Python strings are modelled as \<^typ>\<open>string\<close>; a character stands for a code point
  below 256. \<open>str_split\<close> is \<^verbatim>\<open>s.split(c)\<close> for a one-character separator (it always
  returns at least one segment), \<open>join\<close> is \<^verbatim>\<open>sep.join(xs)\<close>, \<open>replace_char\<close> is
  \<^verbatim>\<open>s.replace(a, b)\<close> for one-character arguments and \<open>strip\<close> is \<^verbatim>\<open>s.strip()\<close>.
\<close>

fun str_split :: "char \<Rightarrow> string \<Rightarrow> string list" where
  "str_split c [] = [[]]"
| "str_split c (x # xs) =
     (if x = c then [] # str_split c xs
      else (case str_split c xs of
              [] \<Rightarrow> [[x]]
            | s # ss \<Rightarrow> (x # s) # ss))"

fun join :: "string \<Rightarrow> string list \<Rightarrow> string" where
  "join sep [] = []"
| "join sep [x] = x"
| "join sep (x # y # ys) = x @ sep @ join sep (y # ys)"

definition replace_char :: "char \<Rightarrow> char \<Rightarrow> string \<Rightarrow> string" where
  "replace_char a b s = map (\<lambda>c. if c = a then b else c) s"

definition isspace :: "char \<Rightarrow> bool" where
  "isspace c =
     (let n = (of_char c :: nat)
      in (9 \<le> n \<and> n \<le> 13) \<or> (28 \<le> n \<and> n \<le> 32) \<or> n = 133 \<or> n = 160)"

definition strip :: "string \<Rightarrow> string" where
  "strip s = rev (dropWhile isspace (rev (dropWhile isspace s)))"

section \<open>Exceptions\<close>

text \<open>
  The exceptions the source names. \<open>request_exception\<close> lists subclasses of
  \<^verbatim>\<open>requests.RequestException\<close>: what \<^verbatim>\<open>requests.get\<close> raises on a connection-level
  failure and what \<^verbatim>\<open>raise_for_status\<close> raises on an error status.
  \<open>ParserRejectedMarkup\<close> is what the markup parser raises on a text it cannot
  parse; no handler of the source names it.
\<close>

datatype request_exception = ConnectionError | Timeout | TooManyRedirects | HTTPError nat

datatype exn =
    RequestException request_exception
  | AttributeError
  | IndexError
  | ParserRejectedMarkup

definition getitem :: "'a list \<Rightarrow> nat \<Rightarrow> exn + 'a" where
  "getitem xs i = (if i < length xs then Inr (xs ! i) else Inl IndexError)"

section \<open>The parsed markup document\<close>

text \<open>
  The tree that \<^verbatim>\<open>BeautifulSoup(text, "html.parser")\<close> builds: a tag has a name, a
  dictionary of attributes and a list of children; a leaf is a string. The value of
  an attribute is a string, or a list of tokens for the multi-valued attributes
  (\<^verbatim>\<open>class\<close>). The document object itself is a tag, so the searches below serve both
  the document and an element.
\<close>

datatype attr_value = Str string | Multi "string list"

datatype node =
    Tag string "(string \<times> attr_value) list" "node list"
  | NavigableString string

fun descendants :: "node \<Rightarrow> node list" where
  "descendants (Tag n a cs) = concat (map (\<lambda>c. c # descendants c) cs)"
| "descendants (NavigableString s) = []"

fun is_named :: "string \<Rightarrow> node \<Rightarrow> bool" where
  "is_named name (Tag n a cs) = (n = name)"
| "is_named name (NavigableString s) = False"

fun get_attr :: "node \<Rightarrow> string \<Rightarrow> attr_value option" where
  "get_attr (Tag n a cs) k = map_of a k"
| "get_attr (NavigableString s) k = None"

text \<open>
  A search for \<^verbatim>\<open>{"class": cls}\<close> matches a multi-valued attribute when one of its
  tokens equals \<open>cls\<close> or when the tokens joined by single spaces equal \<open>cls\<close>; it
  matches a plain string value when the value equals \<open>cls\<close>.
\<close>

definition matches_class :: "string \<Rightarrow> node \<Rightarrow> bool" where
  "matches_class cls e =
     (case get_attr e ''class'' of
        None \<Rightarrow> False
      | Some (Str s) \<Rightarrow> s = cls
      | Some (Multi ts) \<Rightarrow> cls \<in> set ts \<or> join '' '' ts = cls)"

text \<open>\<^verbatim>\<open>find_all(name)\<close>: every descendant tag of that name, in document order.\<close>

definition find_all :: "string \<Rightarrow> node \<Rightarrow> node list" where
  "find_all name e = filter (is_named name) (descendants e)"

text \<open>\<^verbatim>\<open>find(name, {"class": cls})\<close>: the first such descendant, or \<^verbatim>\<open>None\<close>.\<close>

definition find_elem :: "string \<Rightarrow> string \<Rightarrow> node \<Rightarrow> node option" where
  "find_elem name cls e =
     List.find (\<lambda>d. is_named name d \<and> matches_class cls d) (descendants e)"

text \<open>\<^verbatim>\<open>.text\<close>: the strings below the element, concatenated.\<close>

fun get_text :: "node \<Rightarrow> string" where
  "get_text (Tag n a cs) = concat (map get_text cs)"
| "get_text (NavigableString s) = s"

text \<open>Truth value of an attribute value, and \<^verbatim>\<open>.split\<close> on it (a list has no such method).\<close>

fun truthy :: "attr_value \<Rightarrow> bool" where
  "truthy (Str s) = (s \<noteq> [])"
| "truthy (Multi ts) = (ts \<noteq> [])"

fun attr_split :: "attr_value \<Rightarrow> char \<Rightarrow> exn + string list" where
  "attr_split (Str s) c = Inr (str_split c s)"
| "attr_split (Multi ts) c = Inl AttributeError"

section \<open>Transport\<close>

text \<open>
  One call of \<^verbatim>\<open>requests.get\<close> either raises a request exception or returns a
  response with a status code and a text. The text is given by what the markup parser
  does with it: \<^verbatim>\<open>BeautifulSoup(text, "html.parser")\<close> returns a tree, or rejects the text
  and raises. \<open>raise_for_status\<close> raises for the statuses 400 to 599.
  The request is kept as the parameters that the URL is built from.
\<close>

datatype request = Listing string string int | Detail string

datatype markup = Parsed node | Rejected

record response =
  status_code :: nat
  response_text :: markup

definition BeautifulSoup :: "markup \<Rightarrow> exn + node" where
  "BeautifulSoup m = (case m of Parsed soup \<Rightarrow> Inr soup | Rejected \<Rightarrow> Inl ParserRejectedMarkup)"

type_synonym transport = "request \<Rightarrow> request_exception + response"

definition raise_for_status :: "response \<Rightarrow> exn + unit" where
  "raise_for_status r =
     (if 400 \<le> status_code r \<and> status_code r < 600
      then Inl (RequestException (HTTPError (status_code r)))
      else Inr ())"

section \<open>get_job_ids\<close>

text \<open>The body of the inner \<^verbatim>\<open>try\<close>: the identifier to append, if any, or the exception raised.\<close>

definition extract_job_id :: "node \<Rightarrow> exn + string option" where
  "extract_job_id job =
     (case find_elem ''div'' ''base-card'' job of
        None \<Rightarrow> Inr None
      | Some base_card_div \<Rightarrow>
          (case get_attr base_card_div ''data-entity-urn'' of
             None \<Rightarrow> Inr None
           | Some v \<Rightarrow>
               if truthy v
               then (case attr_split v CHR '':'' of
                       Inl e \<Rightarrow> Inl e
                     | Inr segs \<Rightarrow>
                         (case getitem segs 3 of
                            Inl e \<Rightarrow> Inl e
                          | Inr job_id \<Rightarrow> Inr (Some job_id)))
               else Inr None))"

text \<open>
  The loop over \<open>page_jobs\<close> with \<open>id_list\<close> as accumulator. The handler catches
  \<^verbatim>\<open>AttributeError\<close> and \<^verbatim>\<open>IndexError\<close> and continues; any other exception leaves the loop.
\<close>

fun job_loop :: "node list \<Rightarrow> string list \<Rightarrow> exn + string list" where
  "job_loop [] id_list = Inr id_list"
| "job_loop (job # rest) id_list =
     (case extract_job_id job of
        Inr None \<Rightarrow> job_loop rest id_list
      | Inr (Some job_id) \<Rightarrow> job_loop rest (id_list @ [job_id])
      | Inl AttributeError \<Rightarrow> job_loop rest id_list
      | Inl IndexError \<Rightarrow> job_loop rest id_list
      | Inl e \<Rightarrow> Inl e)"

definition get_job_ids_try :: "transport \<Rightarrow> string \<Rightarrow> string \<Rightarrow> int \<Rightarrow> exn + string list" where
  "get_job_ids_try http title location start =
     (case http (Listing title location start) of
        Inl e \<Rightarrow> Inl (RequestException e)
      | Inr response \<Rightarrow>
          (case raise_for_status response of
             Inl e \<Rightarrow> Inl e
           | Inr _ \<Rightarrow>
               (case BeautifulSoup (response_text response) of
                  Inl e \<Rightarrow> Inl e
                | Inr list_soup \<Rightarrow> job_loop (find_all ''li'' list_soup) [])))"

definition get_job_ids :: "transport \<Rightarrow> string \<Rightarrow> string \<Rightarrow> int \<Rightarrow> exn + string list" where
  "get_job_ids http title location start =
     (case get_job_ids_try http title location start of
        Inl (RequestException e) \<Rightarrow> Inr []
      | Inl e \<Rightarrow> Inl e
      | Inr id_list \<Rightarrow> Inr id_list)"

section \<open>scrape_job_details\<close>

text \<open>
  A Python dictionary keeps its keys in insertion order; assigning to a key that is
  present replaces the value in place. A value of the job dictionary is a string or
  \<^verbatim>\<open>None\<close>.
\<close>

type_synonym job_dict = "(string \<times> string option) list"

fun setitem :: "job_dict \<Rightarrow> string \<Rightarrow> string option \<Rightarrow> job_dict" where
  "setitem [] k v = [(k, v)]"
| "setitem (p # ps) k v = (if fst p = k then (k, v) # ps else p # setitem ps k v)"

definition title_class :: string where
  "title_class = ''top-card-layout__title font-sans text-lg papabear:text-xl font-bold leading-open text-color-text mb-0 topcard__title''"

definition company_class :: string where
  "company_class = ''topcard__org-name-link topcard__flavor--black-link''"

definition time_class :: string where
  "time_class = ''posted-time-ago__text topcard__flavor--metadata''"

definition applicants_class :: string where
  "applicants_class = ''num-applicants__caption topcard__flavor--metadata topcard__flavor--bullet''"

definition location_class :: string where
  "location_class = ''topcard__flavor topcard__flavor--bullet''"

text \<open>
  \<^verbatim>\<open>elem.text.strip()\<close> on the result of a search: reading \<^verbatim>\<open>.text\<close> of \<^verbatim>\<open>None\<close> raises
  \<^verbatim>\<open>AttributeError\<close>. A tag is true in a condition whatever its contents; \<^verbatim>\<open>None\<close> is false.
\<close>

definition text_strip :: "node option \<Rightarrow> exn + string" where
  "text_strip elem =
     (case elem of None \<Rightarrow> Inl AttributeError | Some e \<Rightarrow> Inr (strip (get_text e)))"

definition elem_truthy :: "node option \<Rightarrow> bool" where
  "elem_truthy elem = (case elem of None \<Rightarrow> False | Some e \<Rightarrow> True)"

text \<open>The conditional expression \<^verbatim>\<open>elem.text.strip() if elem else None\<close>.\<close>

definition field_expr :: "node option \<Rightarrow> exn + string option" where
  "field_expr elem =
     (if elem_truthy elem
      then (case text_strip elem of Inl e \<Rightarrow> Inl e | Inr s \<Rightarrow> Inr (Some s))
      else Inr None)"

text \<open>
  One \<^verbatim>\<open>try\<close> block of a field: the search, the assignment of the conditional
  expression, and the handler that assigns \<^verbatim>\<open>None\<close> on \<^verbatim>\<open>AttributeError\<close>.
\<close>

definition try_field :: "string \<Rightarrow> string \<Rightarrow> string \<Rightarrow> node \<Rightarrow> job_dict \<Rightarrow> exn + job_dict" where
  "try_field key name cls job_soup job_post =
     (case field_expr (find_elem name cls job_soup) of
        Inr v \<Rightarrow> Inr (setitem job_post key v)
      | Inl AttributeError \<Rightarrow> Inr (setitem job_post key None)
      | Inl e \<Rightarrow> Inl e)"

definition and_then :: "exn + 'a \<Rightarrow> ('a \<Rightarrow> exn + 'b) \<Rightarrow> exn + 'b" where
  "and_then r f = (case r of Inl e \<Rightarrow> Inl e | Inr x \<Rightarrow> f x)"

definition scrape_job_details_try :: "transport \<Rightarrow> string \<Rightarrow> exn + job_dict" where
  "scrape_job_details_try http job_id =
     (case http (Detail job_id) of
        Inl e \<Rightarrow> Inl (RequestException e)
      | Inr job_response \<Rightarrow>
          (case raise_for_status job_response of
             Inl e \<Rightarrow> Inl e
           | Inr _ \<Rightarrow>
               and_then (BeautifulSoup (response_text job_response)) (\<lambda>job_soup.
               (let job_post = [(''job_id'', Some job_id)]
                in and_then (try_field ''job_title'' ''h2'' title_class job_soup job_post) (\<lambda>job_post.
                   and_then (try_field ''company_name'' ''a'' company_class job_soup job_post) (\<lambda>job_post.
                   and_then (try_field ''time_posted'' ''span'' time_class job_soup job_post) (\<lambda>job_post.
                   and_then (try_field ''num_applicants'' ''span'' applicants_class job_soup job_post) (\<lambda>job_post.
                   and_then (try_field ''location'' ''span'' location_class job_soup job_post) (\<lambda>job_post.
                   Inr job_post)))))))))"

definition scrape_job_details :: "transport \<Rightarrow> string \<Rightarrow> exn + job_dict" where
  "scrape_job_details http job_id =
     (case scrape_job_details_try http job_id of
        Inl (RequestException e) \<Rightarrow>
          Inr [(''job_id'', Some job_id), (''job_title'', None), (''company_name'', None),
               (''time_posted'', None), (''num_applicants'', None), (''location'', None)]
      | Inl e \<Rightarrow> Inl e
      | Inr job_post \<Rightarrow> Inr job_post)"

section \<open>The table and its file\<close>

text \<open>
  \<^verbatim>\<open>pd.DataFrame(job_list)\<close> for a list of dictionaries: the columns are the keys in
  the order of their first appearance, and a key that a dictionary lacks gives a
  missing cell, as \<^verbatim>\<open>None\<close> does.
\<close>

record dataframe =
  columns :: "string list"
  cells :: "string option list list"

definition DataFrame :: "job_dict list \<Rightarrow> dataframe" where
  "DataFrame data =
     (let cols = rev (remdups (rev (concat (map (map fst) data))))
      in \<lparr> columns = cols,
           cells = map (\<lambda>d. map (\<lambda>k. case map_of d k of None \<Rightarrow> None | Some v \<Rightarrow> v) cols) data \<rparr>)"

text \<open>
  \<^verbatim>\<open>to_csv(output_filename, index=False)\<close>: a header row of the column names, then
  one row per record, written by the \<^verbatim>\<open>csv\<close> writer with the delimiter \<^verbatim>\<open>,\<close>, minimal
  quoting and doubled quote characters. A missing cell is written as the empty
  string. A field is quoted when it holds the delimiter, the quote character or a
  character of the line terminator. Whether a carriage return or a line feed that is
  not in the line terminator is quoted as well depends on the interpreter: newer ones
  quote it, older ones write it bare; \<open>quote_breaks\<close> says which. A row whose only
  field is empty is written as two quote characters. Each row ends with the line
  terminator, which is the platform's \<^verbatim>\<open>os.linesep\<close>.
\<close>

definition quotechar :: char where "quotechar = CHR 0x22"
definition delimiter :: char where "delimiter = CHR '',''"
definition LF :: char where "LF = CHR 0x0A"
definition CR :: char where "CR = CHR 0x0D"

definition needs_quote :: "bool \<Rightarrow> string \<Rightarrow> string \<Rightarrow> bool" where
  "needs_quote quote_breaks lineterminator s =
     list_ex (\<lambda>c. c = delimiter \<or> c = quotechar \<or> c \<in> set lineterminator
                  \<or> (quote_breaks \<and> (c = CR \<or> c = LF))) s"

definition escape_quotes :: "string \<Rightarrow> string" where
  "escape_quotes s = concat (map (\<lambda>c. if c = quotechar then [quotechar, quotechar] else [c]) s)"

definition csv_field :: "bool \<Rightarrow> string \<Rightarrow> string \<Rightarrow> string" where
  "csv_field quote_breaks lineterminator s =
     (if needs_quote quote_breaks lineterminator s
      then [quotechar] @ escape_quotes s @ [quotechar] else s)"

definition writerow :: "bool \<Rightarrow> string \<Rightarrow> string list \<Rightarrow> string" where
  "writerow quote_breaks lineterminator row =
     (if row = [[]] then [quotechar, quotechar]
      else join [delimiter] (map (csv_field quote_breaks lineterminator) row)) @ lineterminator"

definition na_rep :: "string option \<Rightarrow> string" where
  "na_rep v = (case v of None \<Rightarrow> [] | Some s \<Rightarrow> s)"

definition to_csv :: "bool \<Rightarrow> string \<Rightarrow> dataframe \<Rightarrow> string" where
  "to_csv quote_breaks lineterminator df =
     concat (map (writerow quote_breaks lineterminator)
       (columns df # map (map na_rep) (cells df)))"

section \<open>main\<close>

text \<open>
  What the run meets outside the program: the answer to the \<open>k\<close>-th request
  (the listing request is number 0, the detail request of the \<open>i\<close>-th identifier is
  number \<open>i\<close>, counted from 1 as the loop counts), the \<open>k\<close>-th value of
  \<^verbatim>\<open>random.random()\<close>, a number in \<open>[0, 1)\<close>, the platform's line separator, and whether
  the interpreter's csv writer quotes every carriage return and line feed.
  \<^verbatim>\<open>random.uniform(a, b)\<close> is \<open>a + (b - a) * random()\<close>. Console output is left out.
\<close>

record world =
  http_get :: "nat \<Rightarrow> transport"
  random :: "nat \<Rightarrow> real"
  linesep :: string
  csv_quotes_breaks :: bool

definition uniform :: "real \<Rightarrow> real \<Rightarrow> real \<Rightarrow> real" where
  "uniform a b u = a + (b - a) * u"

datatype event =
    Scrape string
  | Append job_dict
  | Sleep real

record outcome =
  scraped :: "job_dict list"
  trace :: "event list"
  output_file :: "(string \<times> string) option"

definition output_filename :: "string \<Rightarrow> string \<Rightarrow> string" where
  "output_filename location title =
     replace_char CHR '' '' CHR ''_'' location @ ''_'' @ replace_char CHR '' '' CHR ''_'' title @ ''_jobs.csv''"

text \<open>
  The loop \<^verbatim>\<open>for i, job_id in enumerate(id_list, 1)\<close>, with \<open>job_list\<close> and the trace
  of what has happened so far as accumulators.
\<close>

fun detail_loop :: "world \<Rightarrow> nat \<Rightarrow> string list \<Rightarrow> job_dict list \<Rightarrow> event list
    \<Rightarrow> exn + (job_dict list \<times> event list)" where
  "detail_loop w i [] job_list tr = Inr (job_list, tr)"
| "detail_loop w i (job_id # rest) job_list tr =
     (case scrape_job_details (http_get w i) job_id of
        Inl e \<Rightarrow> Inl e
      | Inr job_details \<Rightarrow>
          (let delay = uniform 1 3 (random w i)
           in detail_loop w (Suc i) rest (job_list @ [job_details])
                (tr @ [Scrape job_id, Append job_details, Sleep delay])))"

definition main :: "world \<Rightarrow> exn + outcome" where
  "main w =
     (let title = ''Python Developer'';
          location = ''Toronto'';
          start = 0;
          filename = output_filename location title
      in case get_job_ids (http_get w 0) title location start of
           Inl e \<Rightarrow> Inl e
         | Inr id_list \<Rightarrow>
             if id_list = [] then Inr \<lparr> scraped = [], trace = [], output_file = None \<rparr>
             else (case detail_loop w 1 id_list [] [] of
                     Inl e \<Rightarrow> Inl e
                   | Inr (job_list, tr) \<Rightarrow>
                       if job_list \<noteq> []
                       then Inr \<lparr> scraped = job_list, trace = tr,
                                  output_file = Some (filename,
                                    to_csv (csv_quotes_breaks w) (linesep w) (DataFrame job_list)) \<rparr>
                       else Inr \<lparr> scraped = job_list, trace = tr, output_file = None \<rparr>))"

section \<open>Reading the file back\<close>

text \<open>
  A reader for the same dialect, as the \<^verbatim>\<open>csv\<close> reader works: outside quotes the
  delimiter ends a field, and a line feed, a carriage return, or a carriage return
  followed by a line feed ends a record; inside quotes every character but the quote
  character belongs to the field, and a doubled quote character stands for one. A
  line with nothing on it is a record without fields.
\<close>

datatype rstate = START_RECORD | START_FIELD | IN_FIELD | IN_QUOTED_FIELD | QUOTE_IN_QUOTED_FIELD | EAT_CRNL

fun csv_reader :: "rstate \<Rightarrow> string \<Rightarrow> string list \<Rightarrow> string \<Rightarrow> string list list" where
  "csv_reader st fld row [] =
     (if st = START_RECORD \<or> st = EAT_CRNL then [] else [row @ [fld]])"
| "csv_reader START_RECORD fld row (c # cs) =
     (if c = LF then [] # csv_reader START_RECORD [] [] cs
      else if c = CR then [] # csv_reader EAT_CRNL [] [] cs
      else if c = quotechar then csv_reader IN_QUOTED_FIELD [] [] cs
      else if c = delimiter then csv_reader START_FIELD [] [[]] cs
      else csv_reader IN_FIELD [c] [] cs)"
| "csv_reader EAT_CRNL fld row (c # cs) =
     (if c = LF then csv_reader START_RECORD [] [] cs
      else if c = CR then [] # csv_reader EAT_CRNL [] [] cs
      else if c = quotechar then csv_reader IN_QUOTED_FIELD [] [] cs
      else if c = delimiter then csv_reader START_FIELD [] [[]] cs
      else csv_reader IN_FIELD [c] [] cs)"
| "csv_reader START_FIELD fld row (c # cs) =
     (if c = LF then (row @ [[]]) # csv_reader START_RECORD [] [] cs
      else if c = CR then (row @ [[]]) # csv_reader EAT_CRNL [] [] cs
      else if c = quotechar then csv_reader IN_QUOTED_FIELD [] row cs
      else if c = delimiter then csv_reader START_FIELD [] (row @ [[]]) cs
      else csv_reader IN_FIELD [c] row cs)"
| "csv_reader IN_FIELD fld row (c # cs) =
     (if c = LF then (row @ [fld]) # csv_reader START_RECORD [] [] cs
      else if c = CR then (row @ [fld]) # csv_reader EAT_CRNL [] [] cs
      else if c = delimiter then csv_reader START_FIELD [] (row @ [fld]) cs
      else csv_reader IN_FIELD (fld @ [c]) row cs)"
| "csv_reader IN_QUOTED_FIELD fld row (c # cs) =
     (if c = quotechar then csv_reader QUOTE_IN_QUOTED_FIELD fld row cs
      else csv_reader IN_QUOTED_FIELD (fld @ [c]) row cs)"
| "csv_reader QUOTE_IN_QUOTED_FIELD fld row (c # cs) =
     (if c = quotechar then csv_reader IN_QUOTED_FIELD (fld @ [c]) row cs
      else if c = delimiter then csv_reader START_FIELD [] (row @ [fld]) cs
      else if c = LF then (row @ [fld]) # csv_reader START_RECORD [] [] cs
      else if c = CR then (row @ [fld]) # csv_reader EAT_CRNL [] [] cs
      else csv_reader IN_FIELD (fld @ [c]) row cs)"

definition read_csv :: "string \<Rightarrow> string list list" where
  "read_csv text = csv_reader START_RECORD [] [] text"

text \<open>What terminates a field, for the proofs about the reader.\<close>

definition end_field :: "string \<Rightarrow> string list \<Rightarrow> char \<Rightarrow> string \<Rightarrow> string list list" where
  "end_field f row t cs =
     (if t = delimiter then csv_reader START_FIELD [] (row @ [f]) cs
      else if t = LF then (row @ [f]) # csv_reader START_RECORD [] [] cs
      else (row @ [f]) # csv_reader EAT_CRNL [] [] cs)"

section \<open>Notions of the specification\<close>

text \<open>
  A transport failure: \<^verbatim>\<open>requests.get\<close> raises, or the response has a status that
  \<open>raise_for_status\<close> rejects.
\<close>

definition transport_failure :: "request_exception + response \<Rightarrow> bool" where
  "transport_failure r =
     (case r of Inl e \<Rightarrow> True | Inr resp \<Rightarrow> 400 \<le> status_code resp \<and> status_code resp < 600)"

text \<open>A success status in the sense of HTTP: 200 to 299.\<close>

definition success_status :: "nat \<Rightarrow> bool" where
  "success_status n = (200 \<le> n \<and> n < 300)"

text \<open>
  The markup parser accepts what it is given: the request fails, so that the parser is
  not called, or the parser returns a tree for the text of the response.
\<close>

definition parser_accepts :: "request_exception + response \<Rightarrow> bool" where
  "parser_accepts r =
     (case r of
        Inl e \<Rightarrow> True
      | Inr resp \<Rightarrow> transport_failure (Inr resp) \<or> response_text resp \<noteq> Rejected)"

text \<open>
  A well-formed value of \<^verbatim>\<open>data-entity-urn\<close>: a non-empty string with at least four
  segments between colons. Its identifier is the fourth segment.
\<close>

definition well_formed_urn :: "attr_value option \<Rightarrow> bool" where
  "well_formed_urn v =
     (case v of
        Some (Str s) \<Rightarrow> s \<noteq> [] \<and> 4 \<le> length (str_split CHR '':'' s)
      | _ \<Rightarrow> False)"

definition fourth_segment :: "attr_value option \<Rightarrow> string" where
  "fourth_segment v = (case v of Some (Str s) \<Rightarrow> str_split CHR '':'' s ! 3 | _ \<Rightarrow> [])"

text \<open>
  An entry in the words of the specification: a list item with some nested
  \<^verbatim>\<open>div\<close> of class \<^verbatim>\<open>base-card\<close> whose attribute is well formed.
\<close>

definition has_valid_card :: "node \<Rightarrow> bool" where
  "has_valid_card job =
     list_ex (\<lambda>d. is_named ''div'' d \<and> matches_class ''base-card'' d
                 \<and> well_formed_urn (get_attr d ''data-entity-urn''))
       (descendants job)"

text \<open>
  An entry as the first nested \<^verbatim>\<open>div\<close> of class \<^verbatim>\<open>base-card\<close> decides it: the attribute
  of that element, whether it is well formed, and its identifier.
\<close>

definition first_card_urn :: "node \<Rightarrow> attr_value option" where
  "first_card_urn job =
     (case find_elem ''div'' ''base-card'' job of
        None \<Rightarrow> None
      | Some d \<Rightarrow> get_attr d ''data-entity-urn'')"

definition valid_entry :: "node \<Rightarrow> bool" where
  "valid_entry job = well_formed_urn (first_card_urn job)"

definition entry_id :: "node \<Rightarrow> string" where
  "entry_id job = fourth_segment (first_card_urn job)"

text \<open>The six field names, and for each extracted field its key, tag name and class.\<close>

definition field_names :: "string list" where
  "field_names = [''job_id'', ''job_title'', ''company_name'', ''time_posted'',
                  ''num_applicants'', ''location'']"

definition field_specs :: "(string \<times> string \<times> string) list" where
  "field_specs =
     [(''job_title'', ''h2'', title_class),
      (''company_name'', ''a'', company_class),
      (''time_posted'', ''span'', time_class),
      (''num_applicants'', ''span'', applicants_class),
      (''location'', ''span'', location_class)]"

text \<open>
  The value of a field on a page: null when no element has the tag name and class,
  else the stripped text of the first one.
\<close>

definition field_value :: "string \<Rightarrow> string \<Rightarrow> node \<Rightarrow> string option" where
  "field_value name cls job_soup =
     (case find_elem name cls job_soup of
        None \<Rightarrow> None
      | Some e \<Rightarrow> Some (strip (get_text e)))"

text \<open>
  A field that is missing in the words of the specification: the element is absent,
  or it is there and has no text content.
\<close>

definition missing_field :: "string \<Rightarrow> string \<Rightarrow> node \<Rightarrow> bool" where
  "missing_field name cls job_soup =
     (case find_elem name cls job_soup of
        None \<Rightarrow> True
      | Some e \<Rightarrow> get_text e = [])"

definition null_record :: "string \<Rightarrow> job_dict" where
  "null_record job_id =
     [(''job_id'', Some job_id), (''job_title'', None), (''company_name'', None),
      (''time_posted'', None), (''num_applicants'', None), (''location'', None)]"

definition page_record :: "string \<Rightarrow> node \<Rightarrow> job_dict" where
  "page_record job_id job_soup =
     [(''job_id'', Some job_id),
      (''job_title'', field_value ''h2'' title_class job_soup),
      (''company_name'', field_value ''a'' company_class job_soup),
      (''time_posted'', field_value ''span'' time_class job_soup),
      (''num_applicants'', field_value ''span'' applicants_class job_soup),
      (''location'', field_value ''span'' location_class job_soup)]"

text \<open>
  The record of a detail request that the parser accepts (where it does not, no record
  is returned and the value below is not used).
\<close>

definition detail_record :: "transport \<Rightarrow> string \<Rightarrow> job_dict" where
  "detail_record http job_id =
     (case http (Detail job_id) of
        Inl e \<Rightarrow> null_record job_id
      | Inr resp \<Rightarrow>
          if transport_failure (Inr resp) then null_record job_id
          else (case response_text resp of
                  Parsed job_soup \<Rightarrow> page_record job_id job_soup
                | Rejected \<Rightarrow> []))"

text \<open>A detail fetch that fully succeeds: every field has an element with text.\<close>

definition fully_succeeds :: "transport \<Rightarrow> string \<Rightarrow> bool" where
  "fully_succeeds http job_id =
     (case http (Detail job_id) of
        Inl e \<Rightarrow> False
      | Inr resp \<Rightarrow>
          \<not> transport_failure (Inr resp) \<and>
          (case response_text resp of
             Rejected \<Rightarrow> False
           | Parsed job_soup \<Rightarrow>
               list_all (\<lambda>(key, name, cls).
                   case field_value name cls job_soup of None \<Rightarrow> False | Some s \<Rightarrow> s \<noteq> [])
                 field_specs))"

text \<open>
  The visits of the detail loop: the identifiers with their counter. Each visit leaves
  a record and three events.
\<close>

definition visits :: "world \<Rightarrow> nat \<Rightarrow> string list \<Rightarrow> (nat \<times> string) list" where
  "visits w i id_list = zip [i ..< i + length id_list] id_list"

definition visit_record :: "world \<Rightarrow> nat \<times> string \<Rightarrow> job_dict" where
  "visit_record w v = detail_record (http_get w (fst v)) (snd v)"

definition visit_events :: "world \<Rightarrow> nat \<times> string \<Rightarrow> event list" where
  "visit_events w v =
     [Scrape (snd v), Append (visit_record w v), Sleep (uniform 1 3 (random w (fst v)))]"

text \<open>The string representation of a record, field by field: null is the empty string.\<close>

definition record_row :: "job_dict \<Rightarrow> string list" where
  "record_row d = map (\<lambda>k. case map_of d k of Some (Some s) \<Rightarrow> s | _ \<Rightarrow> []) field_names"

text \<open>
  A field holds a line break, a field holds one of the four characters that the reader
  treats specially, and the writer quotes every field of the rows that holds a line
  break. The last holds of all rows when the writer quotes every line break or the line
  terminator is CR LF, and otherwise of the rows without a carriage return.
\<close>

definition holds_break :: "string \<Rightarrow> bool" where
  "holds_break s = list_ex (\<lambda>c. c = CR \<or> c = LF) s"

definition holds_special :: "string \<Rightarrow> bool" where
  "holds_special s = list_ex (\<lambda>c. c = delimiter \<or> c = quotechar \<or> c = CR \<or> c = LF) s"

definition breaks_quoted :: "bool \<Rightarrow> string \<Rightarrow> string list list \<Rightarrow> bool" where
  "breaks_quoted quote_breaks lineterminator rows =
     list_all (list_all (\<lambda>s. holds_break s \<longrightarrow> needs_quote quote_breaks lineterminator s)) rows"

section \<open>Sample pages and runs\<close>

definition base_card :: "(string \<times> attr_value) list \<Rightarrow> node" where
  "base_card extra = Tag ''div'' ((''class'', Multi [''base-card'', ''relative'']) # extra) []"

definition entry :: "string \<Rightarrow> node" where
  "entry urn = Tag ''li'' [] [base_card [(''data-entity-urn'', Str urn)]]"

text \<open>
  A listing page with two valid entries and four others: a malformed attribute, a list
  item without a card, a card without the attribute, and text.
\<close>

definition listing_page :: node where
  "listing_page =
     Tag ''[document]'' []
       [entry ''urn:li:jobPosting:123'',
        NavigableString ''more'',
        entry ''jobPosting-7'',
        Tag ''li'' [] [NavigableString ''See more jobs''],
        Tag ''li'' [] [base_card []],
        entry ''urn:li:jobPosting:456'']"

text \<open>A list item whose second card carries the attribute, the first does not.\<close>

definition two_card_page :: node where
  "two_card_page =
     Tag ''[document]'' []
       [Tag ''li'' [] [base_card [], base_card [(''data-entity-urn'', Str ''urn:li:jobPosting:123'')]]]"

text \<open>An entry whose attribute ends in the delimiter.\<close>

definition trailing_colon_page :: node where
  "trailing_colon_page = Tag ''[document]'' [] [entry ''urn:li:jobPosting:'']"

definition element :: "string \<Rightarrow> string \<Rightarrow> node list \<Rightarrow> node" where
  "element name cls children = Tag name [(''class'', Multi (str_split CHR '' '' cls))] children"

definition full_page :: "string \<Rightarrow> node" where
  "full_page title =
     Tag ''[document]'' []
       [element ''h2'' title_class [NavigableString title],
        element ''a'' company_class [NavigableString '' Acme ''],
        element ''span'' time_class [NavigableString ''2 days ago''],
        element ''span'' applicants_class [NavigableString ''25 applicants''],
        element ''span'' location_class [NavigableString ''Toronto, Ontario, Canada'']]"

text \<open>
  A page whose title element holds an empty child and no text, and that lacks the
  applicant count.
\<close>

definition untitled_page :: node where
  "untitled_page =
     Tag ''[document]'' []
       [element ''h2'' title_class [Tag ''span'' [] []],
        element ''a'' company_class [NavigableString ''Acme''],
        element ''span'' time_class [NavigableString ''2 days ago''],
        element ''span'' location_class [NavigableString ''Toronto'']]"

definition status_response :: "nat \<Rightarrow> node \<Rightarrow> request_exception + response" where
  "status_response n page = Inr \<lparr> status_code = n, response_text = Parsed page \<rparr>"

definition ok_response :: "node \<Rightarrow> request_exception + response" where
  "ok_response page = status_response 200 page"

text \<open>
  A run in which every request succeeds, a run in which the second detail request
  times out and the first is answered with status 404, a run whose listing
  request fails, a run whose first detail response has a text that the parser rejects,
  and a run with one identifier whose title holds a carriage return, on an interpreter
  whose csv writer writes it bare.
\<close>

definition good_world :: world where
  "good_world =
     \<lparr> http_get = (\<lambda>k req. if k = 0 then ok_response listing_page
                           else if k = 1 then ok_response (full_page ''Python Developer'')
                           else ok_response (full_page ''Data Engineer'')),
       random = (\<lambda>k. 1 / 2),
       linesep = [LF],
       csv_quotes_breaks = True \<rparr>"

definition flaky_world :: world where
  "flaky_world =
     \<lparr> http_get = (\<lambda>k req. if k = 0 then ok_response listing_page
                           else if k = 1 then status_response 404 (Tag ''[document]'' [] [])
                           else Inl Timeout),
       random = (\<lambda>k. 0),
       linesep = [CR, LF],
       csv_quotes_breaks = False \<rparr>"

definition offline_world :: world where
  "offline_world =
     \<lparr> http_get = (\<lambda>k req. Inl ConnectionError),
       random = (\<lambda>k. 0),
       linesep = [LF],
       csv_quotes_breaks = True \<rparr>"

definition rejecting_world :: world where
  "rejecting_world =
     \<lparr> http_get = (\<lambda>k req. if k = 0 then ok_response listing_page
                           else if k = 1 then Inr \<lparr> status_code = 200, response_text = Rejected \<rparr>
                           else ok_response (full_page ''Data Engineer'')),
       random = (\<lambda>k. 0),
       linesep = [LF],
       csv_quotes_breaks = True \<rparr>"

definition single_page :: node where
  "single_page = Tag ''[document]'' [] [entry ''urn:li:jobPosting:123'']"

definition bare_cr_world :: world where
  "bare_cr_world =
     \<lparr> http_get = (\<lambda>k req. if k = 0 then ok_response single_page
                           else ok_response (full_page (''a'' @ [CR] @ ''b''))),
       random = (\<lambda>k. 0),
       linesep = [LF],
       csv_quotes_breaks = False \<rparr>"

text \<open>
  A record whose title holds a carriage return, and a record whose text holds the
  delimiter, quote characters and line breaks.
\<close>

definition bare_cr_record :: job_dict where
  "bare_cr_record =
     [(''job_id'', Some ''123''), (''job_title'', Some (''a'' @ [CR] @ ''b'')),
      (''company_name'', Some ''Acme''), (''time_posted'', None),
      (''num_applicants'', None), (''location'', Some ''Toronto'')]"

definition awkward_record :: job_dict where
  "awkward_record =
     [(''job_id'', Some ''456''),
      (''job_title'', Some (''Developer, '' @ [quotechar] @ ''senior'' @ [quotechar, LF] @ ''remote'' @ [CR] @ ''x'')),
      (''company_name'', Some []),
      (''time_posted'', None),
      (''num_applicants'', Some [quotechar]),
      (''location'', Some ''Toronto, Ontario, Canada'')]"

section \<open>The listing fetcher as a filter\<close>

lemma extract_job_id_valid:
  "valid_entry job \<Longrightarrow> extract_job_id job = Inr (Some (entry_id job))"
  by (auto simp: valid_entry_def entry_id_def first_card_urn_def extract_job_id_def
        well_formed_urn_def fourth_segment_def getitem_def
      split: option.splits attr_value.splits)

lemma extract_job_id_invalid:
  "\<not> valid_entry job \<Longrightarrow>
   extract_job_id job = Inr None \<or> extract_job_id job = Inl AttributeError
   \<or> extract_job_id job = Inl IndexError"
  by (auto simp: valid_entry_def first_card_urn_def extract_job_id_def
        well_formed_urn_def getitem_def
      split: option.splits attr_value.splits)

lemma job_loop_filter:
  "job_loop jobs id_list = Inr (id_list @ map entry_id (filter valid_entry jobs))"
proof (induction jobs arbitrary: id_list)
  case Nil
  then show ?case by simp
next
  case (Cons job rest)
  show ?case
  proof (cases "valid_entry job")
    case True
    then show ?thesis using Cons extract_job_id_valid[OF True] by simp
  next
    case False
    from extract_job_id_invalid[OF False] show ?thesis using False Cons by auto
  qed
qed

lemma get_job_ids_ok:
  assumes "http (Listing title location start) = Inr resp" "\<not> transport_failure (Inr resp)"
    and "response_text resp = Parsed list_soup"
  shows "get_job_ids http title location start =
         Inr (map entry_id (filter valid_entry (find_all ''li'' list_soup)))"
  using assms
  by (auto simp: get_job_ids_def get_job_ids_try_def raise_for_status_def transport_failure_def
        BeautifulSoup_def job_loop_filter)

lemma get_job_ids_failure:
  assumes "transport_failure (http (Listing title location start))"
  shows "get_job_ids http title location start = Inr []"
  using assms
  by (auto simp: get_job_ids_def get_job_ids_try_def raise_for_status_def transport_failure_def
      split: sum.splits)

section \<open>The detail fetcher as a record\<close>

lemma field_expr_value: "field_expr (find_elem name cls job_soup) = Inr (field_value name cls job_soup)"
  by (simp add: field_expr_def elem_truthy_def text_strip_def field_value_def split: option.splits)

lemma try_field_value:
  "try_field key name cls job_soup job_post =
   Inr (setitem job_post key (field_value name cls job_soup))"
  by (simp add: try_field_def field_expr_value)

lemma scrape_job_details_ok:
  assumes "http (Detail job_id) = Inr resp" "\<not> transport_failure (Inr resp)"
    and "response_text resp = Parsed job_soup"
  shows "scrape_job_details http job_id = Inr (page_record job_id job_soup)"
  using assms
  by (auto simp: scrape_job_details_def scrape_job_details_try_def raise_for_status_def
        transport_failure_def BeautifulSoup_def try_field_value and_then_def page_record_def
        Let_def)


lemma scrape_job_details_failure:
  assumes "transport_failure (http (Detail job_id))"
  shows "scrape_job_details http job_id = Inr (null_record job_id)"
  using assms
  by (auto simp: scrape_job_details_def scrape_job_details_try_def raise_for_status_def
        transport_failure_def null_record_def split: sum.splits)

lemma scrape_job_details_record:
  assumes "parser_accepts (http (Detail job_id))"
  shows "scrape_job_details http job_id = Inr (detail_record http job_id)"
proof (cases "http (Detail job_id)")
  case (Inl e)
  then show ?thesis
    using scrape_job_details_failure[of http job_id]
    by (simp add: detail_record_def transport_failure_def)
next
  case (Inr resp)
  show ?thesis
  proof (cases "transport_failure (Inr resp)")
    case True
    then show ?thesis
      using Inr scrape_job_details_failure[of http job_id] by (simp add: detail_record_def)
  next
    case False
    have "response_text resp \<noteq> Rejected"
      using assms Inr False by (simp add: parser_accepts_def)
    then obtain job_soup where "response_text resp = Parsed job_soup"
      by (cases "response_text resp") auto
    then show ?thesis
      using Inr False scrape_job_details_ok[of http job_id resp job_soup]
      by (simp add: detail_record_def)
  qed
qed



lemma detail_record_cases:
  assumes "parser_accepts (http (Detail job_id))"
  shows "detail_record http job_id = null_record job_id
         \<or> (\<exists>job_soup. detail_record http job_id = page_record job_id job_soup)"
proof (cases "http (Detail job_id)")
  case (Inl e)
  then show ?thesis by (simp add: detail_record_def)
next
  case (Inr resp)
  show ?thesis
  proof (cases "transport_failure (Inr resp)")
    case True
    then show ?thesis using Inr by (simp add: detail_record_def)
  next
    case False
    have "response_text resp \<noteq> Rejected"
      using assms Inr False by (simp add: parser_accepts_def)
    then obtain job_soup where "response_text resp = Parsed job_soup"
      by (cases "response_text resp") auto
    then have "detail_record http job_id = page_record job_id job_soup"
      using Inr False by (simp add: detail_record_def)
    then show ?thesis by blast
  qed
qed

lemma keys_detail_record:
  "parser_accepts (http (Detail job_id)) \<Longrightarrow> map fst (detail_record http job_id) = field_names"
  using detail_record_cases[of http job_id]
  by (auto simp: null_record_def page_record_def field_names_def)

lemma job_id_detail_record:
  "parser_accepts (http (Detail job_id)) \<Longrightarrow>
   map_of (detail_record http job_id) ''job_id'' = Some (Some job_id)"
  using detail_record_cases[of http job_id]
  by (auto simp: null_record_def page_record_def)

lemma field_value_None_iff:
  "field_value name cls job_soup = None \<longleftrightarrow> find_elem name cls job_soup = None"
  by (simp add: field_value_def split: option.splits)

lemma field_value_Some:
  "find_elem name cls job_soup = Some e \<Longrightarrow> field_value name cls job_soup = Some (strip (get_text e))"
  by (simp add: field_value_def)

lemma page_record_lookup:
  "(key, name, cls) \<in> set field_specs \<Longrightarrow>
   map_of (page_record job_id job_soup) key = Some (field_value name cls job_soup)"
  by (auto simp: field_specs_def page_record_def)

lemma page_record_nulls:
  "filter (\<lambda>kv. snd kv = None) (page_record job_id job_soup) =
   map (\<lambda>(key, name, cls). (key, None))
     (filter (\<lambda>(key, name, cls). field_value name cls job_soup = None) field_specs)"
  by (simp add: field_specs_def page_record_def)

section \<open>The detail loop and the run\<close>

lemma visits_Cons: "visits w i (job_id # rest) = (i, job_id) # visits w (Suc i) rest"
  by (simp add: visits_def upt_rec)

lemma length_visits: "length (visits w i id_list) = length id_list"
  by (simp add: visits_def)

lemma visits_Nil_iff: "visits w i id_list = [] \<longleftrightarrow> id_list = []"
  using length_visits[of w i id_list] by (metis length_0_conv)

lemma map_snd_visits: "map snd (visits w i id_list) = id_list"
  by (simp add: visits_def)

lemma map_fst_visits: "map fst (visits w i id_list) = [i ..< i + length id_list]"
  by (simp add: visits_def)

lemma detail_loop_visits:
  assumes "\<forall>k<length id_list. parser_accepts (http_get w (i + k) (Detail (id_list ! k)))"
  shows "detail_loop w i id_list job_list tr =
   Inr (job_list @ map (visit_record w) (visits w i id_list),
        tr @ concat (map (visit_events w) (visits w i id_list)))"
  using assms
proof (induction id_list arbitrary: i job_list tr)
  case Nil
  then show ?case by (simp add: visits_def)
next
  case (Cons job_id rest)
  from Cons.prems have h: "parser_accepts (http_get w i (Detail job_id))" by force
  have "\<forall>k<length rest. parser_accepts (http_get w (Suc i + k) (Detail (rest ! k)))"
  proof (intro allI impI)
    fix k assume "k < length rest"
    then have "Suc k < length (job_id # rest)" by simp
    with Cons.prems have "parser_accepts (http_get w (i + Suc k) (Detail ((job_id # rest) ! Suc k)))"
      by blast
    then show "parser_accepts (http_get w (Suc i + k) (Detail (rest ! k)))" by simp
  qed
  from Cons.IH[OF this] show ?case
    using scrape_job_details_record[of "http_get w i" job_id] h
    by (simp add: visits_Cons visit_record_def visit_events_def)
qed

lemma main_nonempty:
  assumes "get_job_ids (http_get w 0) ''Python Developer'' ''Toronto'' 0 = Inr id_list"
    and "id_list \<noteq> []"
    and "\<forall>k<length id_list. parser_accepts (http_get w (Suc k) (Detail (id_list ! k)))"
  shows "main w =
     Inr \<lparr> scraped = map (visit_record w) (visits w 1 id_list),
           trace = concat (map (visit_events w) (visits w 1 id_list)),
           output_file = Some (output_filename ''Toronto'' ''Python Developer'',
             to_csv (csv_quotes_breaks w) (linesep w)
               (DataFrame (map (visit_record w) (visits w 1 id_list)))) \<rparr>"
proof -
  have "detail_loop w 1 id_list [] [] =
     Inr ([] @ map (visit_record w) (visits w 1 id_list),
          [] @ concat (map (visit_events w) (visits w 1 id_list)))"
    by (rule detail_loop_visits) (use assms(3) in simp)
  then show ?thesis using assms(1,2) by (simp add: main_def Let_def visits_Nil_iff)
qed

section \<open>The table of a list of records\<close>

lemma remdups_append_subset: "set xs \<subseteq> set ys \<Longrightarrow> remdups (xs @ ys) = remdups ys"
  by (induction xs) auto

lemma first_keys_replicate:
  assumes "distinct ks"
  shows "rev (remdups (rev (concat (replicate (Suc n) ks)))) = ks"
proof (induction n)
  case 0
  then show ?case using assms by (simp add: distinct_remdups_id)
next
  case (Suc n)
  have "rev (concat (replicate (Suc (Suc n)) ks)) = rev (concat (replicate (Suc n) ks)) @ rev ks"
    by simp
  moreover have "set (rev (concat (replicate (Suc n) ks))) \<subseteq> set (rev ks)"
    by auto
  ultimately have "remdups (rev (concat (replicate (Suc (Suc n)) ks))) = remdups (rev ks)"
    using remdups_append_subset by metis
  then show ?case using assms by (simp add: distinct_remdups_id)
qed

lemma same_keys_replicate:
  assumes "\<forall>d\<in>set data. map fst d = ks"
  shows "map (map fst) data = replicate (length data) ks"
  using assms by (induction data) auto

lemma record_cells:
  "map (\<lambda>k. na_rep (case map_of d k of None \<Rightarrow> None | Some v \<Rightarrow> v)) field_names = record_row d"
  by (simp add: record_row_def na_rep_def split: option.splits)

lemma to_csv_DataFrame:
  assumes "data \<noteq> []" and "\<forall>d\<in>set data. map fst d = field_names"
  shows "to_csv qb ls (DataFrame data) =
         concat (map (writerow qb ls) (field_names # map record_row data))"
proof -
  obtain n where n: "length data = Suc n" using assms(1) by (cases data) auto
  have "distinct field_names" by (simp add: field_names_def)
  then have cols: "rev (remdups (rev (concat (map (map fst) data)))) = field_names"
    using same_keys_replicate[OF assms(2)] first_keys_replicate[of field_names n] n by simp
  have rows: "map (map na_rep) (map (\<lambda>d. map (\<lambda>k. case map_of d k of None \<Rightarrow> None | Some v \<Rightarrow> v) field_names) data)
        = map record_row data"
    by (simp add: comp_def record_cells)
  have df: "DataFrame data = \<lparr> columns = field_names,
      cells = map (\<lambda>d. map (\<lambda>k. case map_of d k of None \<Rightarrow> None | Some v \<Rightarrow> v) field_names) data \<rparr>"
    by (simp add: DataFrame_def cols Let_def)
  show ?thesis unfolding to_csv_def df by (simp only: dataframe.simps rows)
qed

section \<open>Reading back what the writer wrote\<close>

lemma special_distinct:
  "LF \<noteq> CR" "LF \<noteq> quotechar" "LF \<noteq> delimiter" "CR \<noteq> quotechar" "CR \<noteq> delimiter"
  "quotechar \<noteq> delimiter" "CR \<noteq> LF" "quotechar \<noteq> LF" "delimiter \<noteq> LF" "quotechar \<noteq> CR"
  "delimiter \<noteq> CR" "delimiter \<noteq> quotechar"
  by (simp_all add: LF_def CR_def quotechar_def delimiter_def)

lemma quoted_or_plain:
  "(holds_break s \<longrightarrow> needs_quote qb lt s) \<Longrightarrow> needs_quote qb lt s \<or> \<not> holds_special s"
  by (auto simp: holds_break_def holds_special_def needs_quote_def list_ex_iff)

lemma breaks_quoted_always: "breaks_quoted True lt rows"
  by (auto simp: breaks_quoted_def needs_quote_def holds_break_def list_all_iff list_ex_iff)

lemma breaks_quoted_crlf: "breaks_quoted qb [CR, LF] rows"
  by (auto simp: breaks_quoted_def needs_quote_def holds_break_def list_all_iff list_ex_iff)

lemma breaks_quoted_header:
  "breaks_quoted qb lt (field_names # rows) = breaks_quoted qb lt rows"
  by (simp add: breaks_quoted_def field_names_def holds_break_def CR_def LF_def)

lemma in_field_plain:
  "\<not> holds_special s \<Longrightarrow>
   csv_reader IN_FIELD f row (s @ rest) = csv_reader IN_FIELD (f @ s) row rest"
  by (induction s arbitrary: f) (simp_all add: holds_special_def)

lemma in_quoted_escaped:
  "csv_reader IN_QUOTED_FIELD f row (escape_quotes s @ rest) =
   csv_reader IN_QUOTED_FIELD (f @ s) row rest"
  by (induction s arbitrary: f) (simp_all add: escape_quotes_def)

lemma read_field:
  assumes "t = delimiter \<or> t = LF \<or> t = CR"
    and "needs_quote qb lt s \<or> \<not> holds_special s"
  shows "csv_reader START_FIELD [] row (csv_field qb lt s @ t # cs) = end_field s row t cs"
proof (cases "needs_quote qb lt s")
  case True
  then show ?thesis using assms(1)
    by (auto simp: csv_field_def in_quoted_escaped end_field_def special_distinct)
next
  case False
  with assms(2) have plain: "\<not> holds_special s" by simp
  show ?thesis
  proof (cases s)
    case Nil
    then show ?thesis using assms(1) False
      by (auto simp: csv_field_def end_field_def special_distinct)
  next
    case (Cons c s')
    with plain have c: "c \<noteq> delimiter" "c \<noteq> quotechar" "c \<noteq> CR" "c \<noteq> LF"
      and s': "\<not> holds_special s'"
      by (simp_all add: holds_special_def)
    show ?thesis using assms(1) False Cons c in_field_plain[OF s', of "[c]" row "t # cs"]
      by (auto simp: csv_field_def end_field_def special_distinct)
  qed
qed

lemma read_first_field:
  assumes "t = delimiter \<or> t = LF \<or> t = CR" and "s \<noteq> [] \<or> t = delimiter"
    and "needs_quote qb lt s \<or> \<not> holds_special s"
  shows "csv_reader START_RECORD [] [] (csv_field qb lt s @ t # cs) = end_field s [] t cs"
proof (cases "needs_quote qb lt s")
  case True
  then show ?thesis using assms(1,2)
    by (auto simp: csv_field_def in_quoted_escaped end_field_def special_distinct)
next
  case False
  with assms(3) have plain: "\<not> holds_special s" by simp
  show ?thesis
  proof (cases s)
    case Nil
    then show ?thesis using assms(1,2) False
      by (auto simp: csv_field_def end_field_def special_distinct)
  next
    case (Cons c s')
    with plain have c: "c \<noteq> delimiter" "c \<noteq> quotechar" "c \<noteq> CR" "c \<noteq> LF"
      and s': "\<not> holds_special s'"
      by (simp_all add: holds_special_def)
    show ?thesis using assms(1,2) False Cons c in_field_plain[OF s', of "[c]" "[]" "t # cs"]
      by (auto simp: csv_field_def end_field_def special_distinct)
  qed
qed

lemma read_fields:
  assumes "t = LF \<or> t = CR"
    and "\<forall>s\<in>set (x # xs). needs_quote qb lt s \<or> \<not> holds_special s"
  shows "csv_reader START_FIELD [] row (join [delimiter] (map (csv_field qb lt) (x # xs)) @ t # cs) =
         (row @ x # xs) # csv_reader (if t = LF then START_RECORD else EAT_CRNL) [] [] cs"
  using assms(2)
proof (induction xs arbitrary: row x)
  case Nil
  then show ?case using assms(1) read_field[of t qb lt x row cs]
    by (auto simp: end_field_def special_distinct)
next
  case (Cons y ys)
  have "csv_reader START_FIELD [] row
          (join [delimiter] (map (csv_field qb lt) (x # y # ys)) @ t # cs) =
        csv_reader START_FIELD [] (row @ [x])
          (join [delimiter] (map (csv_field qb lt) (y # ys)) @ t # cs)"
    using Cons.prems
      read_field[of delimiter qb lt x row "join [delimiter] (map (csv_field qb lt) (y # ys)) @ t # cs"]
    by (simp add: end_field_def)
  moreover have "\<forall>s\<in>set (y # ys). needs_quote qb lt s \<or> \<not> holds_special s"
    using Cons.prems by simp
  ultimately show ?case using Cons.IH[of y "row @ [x]"] by simp
qed

lemma read_record:
  assumes "t = LF \<or> t = CR"
    and "\<forall>s\<in>set ss. needs_quote qb lt s \<or> \<not> holds_special s"
  shows "csv_reader START_RECORD [] []
           ((if ss = [[]] then [quotechar, quotechar]
             else join [delimiter] (map (csv_field qb lt) ss)) @ t # cs) =
         ss # csv_reader (if t = LF then START_RECORD else EAT_CRNL) [] [] cs"
proof (cases ss)
  case Nil
  then show ?thesis using assms(1) by (auto simp: special_distinct)
next
  case (Cons x xs)
  show ?thesis
  proof (cases xs)
    case Nil
    then show ?thesis using assms Cons read_first_field[of t x qb lt cs]
      by (cases "x = []") (auto simp: end_field_def special_distinct)
  next
    case (Cons y ys)
    then have ss: "ss = x # y # ys" using \<open>ss = x # xs\<close> by simp
    have "csv_reader START_RECORD [] [] (join [delimiter] (map (csv_field qb lt) ss) @ t # cs) =
          csv_reader START_FIELD [] [x] (join [delimiter] (map (csv_field qb lt) (y # ys)) @ t # cs)"
      using assms(2)
        read_first_field[of delimiter x qb lt "join [delimiter] (map (csv_field qb lt) (y # ys)) @ t # cs"]
      by (simp add: ss end_field_def)
    moreover have "\<forall>s\<in>set (y # ys). needs_quote qb lt s \<or> \<not> holds_special s"
      using assms(2) by (simp add: ss)
    ultimately show ?thesis using read_fields[OF assms(1), of y ys qb lt "[x]" cs] by (simp add: ss)
  qed
qed

lemma read_writerow:
  assumes "ls = [LF] \<or> ls = [CR, LF]"
    and "\<forall>s\<in>set ss. needs_quote qb ls s \<or> \<not> holds_special s"
  shows "csv_reader START_RECORD [] [] (writerow qb ls ss @ cs) =
         ss # csv_reader START_RECORD [] [] cs"
proof -
  from assms(1) consider "ls = [LF]" | "ls = [CR, LF]" by blast
  then show ?thesis
  proof cases
    case 1
    have "csv_reader START_RECORD [] []
            ((if ss = [[]] then [quotechar, quotechar]
              else join [delimiter] (map (csv_field qb ls) ss)) @ LF # cs) =
          ss # csv_reader START_RECORD [] [] cs"
      using read_record[of LF ss qb ls cs] assms(2) by simp
    then show ?thesis unfolding writerow_def 1
      by (simp only: append_assoc append_Cons append_Nil)
  next
    case 2
    have "csv_reader START_RECORD [] []
            ((if ss = [[]] then [quotechar, quotechar]
              else join [delimiter] (map (csv_field qb ls) ss)) @ CR # LF # cs) =
          ss # csv_reader START_RECORD [] [] cs"
      using read_record[of CR ss qb ls "LF # cs"] assms(2) by (simp add: special_distinct)
    then show ?thesis unfolding writerow_def 2
      by (simp only: append_assoc append_Cons append_Nil)
  qed
qed

lemma read_writerows:
  assumes "ls = [LF] \<or> ls = [CR, LF]" and "breaks_quoted qb ls rows"
  shows "read_csv (concat (map (writerow qb ls) rows)) = rows"
  unfolding read_csv_def using assms(2)
proof (induction rows)
  case Nil
  then show ?case by simp
next
  case (Cons ss rows)
  then have "\<forall>s\<in>set ss. needs_quote qb ls s \<or> \<not> holds_special s"
    using quoted_or_plain[of _ qb ls] by (auto simp: breaks_quoted_def list_all_iff)
  moreover from Cons.prems have "breaks_quoted qb ls rows" by (simp add: breaks_quoted_def)
  ultimately show ?case using Cons.IH read_writerow[OF assms(1), of ss qb] by simp
qed

section \<open>Rows and events of the run\<close>

lemma nth_visits:
  "k < length id_list \<Longrightarrow> visits w i id_list ! k = (i + k, id_list ! k)"
  by (simp add: visits_def)




lemma output_filename_configured:
  "output_filename ''Toronto'' ''Python Developer'' = ''Toronto_Python_Developer_jobs.csv''"
  by (simp add: output_filename_def replace_char_def)

lemma record_row_null: "record_row (null_record job_id) = [job_id, [], [], [], [], []]"
  by (simp add: record_row_def null_record_def field_names_def)

lemma record_row_page:
  "record_row (page_record job_id job_soup) =
     [job_id,
      na_rep (field_value ''h2'' title_class job_soup),
      na_rep (field_value ''a'' company_class job_soup),
      na_rep (field_value ''span'' time_class job_soup),
      na_rep (field_value ''span'' applicants_class job_soup),
      na_rep (field_value ''span'' location_class job_soup)]"
  by (simp add: record_row_def page_record_def field_names_def na_rep_def split: option.splits)

lemma record_row_detail_shape:
  assumes "parser_accepts (http (Detail job_id))"
  shows "hd (record_row (detail_record http job_id)) = job_id
   \<and> length (record_row (detail_record http job_id)) = 6"
  using detail_record_cases[of http job_id] assms
  by (auto simp: record_row_null record_row_page)

lemma na_rep_populated:
  "(case v of None \<Rightarrow> False | Some s \<Rightarrow> s \<noteq> []) \<Longrightarrow> na_rep v \<noteq> []"
  by (cases v) (simp_all add: na_rep_def)

lemma record_row_populated:
  assumes "fully_succeeds http job_id" and "job_id \<noteq> []"
  shows "[] \<notin> set (record_row (detail_record http job_id))"
proof -
  from assms(1) obtain resp job_soup where resp: "http (Detail job_id) = Inr resp"
      "\<not> transport_failure (Inr resp)"
      "response_text resp = Parsed job_soup"
      "list_all (\<lambda>(key, name, cls).
              case field_value name cls job_soup of None \<Rightarrow> False | Some s \<Rightarrow> s \<noteq> [])
            field_specs"
    by (auto simp: fully_succeeds_def split: sum.splits markup.splits)
  have d: "detail_record http job_id = page_record job_id job_soup"
    using resp(1,2,3) by (simp add: detail_record_def)
  from resp(4) have
    "na_rep (field_value ''h2'' title_class job_soup) \<noteq> []"
    "na_rep (field_value ''a'' company_class job_soup) \<noteq> []"
    "na_rep (field_value ''span'' time_class job_soup) \<noteq> []"
    "na_rep (field_value ''span'' applicants_class job_soup) \<noteq> []"
    "na_rep (field_value ''span'' location_class job_soup) \<noteq> []"
    by (simp_all add: field_specs_def na_rep_populated)
  then show ?thesis using assms(2) by (simp add: d record_row_page)
qed

section \<open>Claims about the listing fetcher\<close>

text \<open>
  C1, as the code has it. For every listing response that is not a transport failure
  and whose text the parser makes a tree of, \<open>get_job_ids\<close> returns one identifier
  for each list item whose first nested \<^verbatim>\<open>div\<close> of class \<^verbatim>\<open>base-card\<close> carries a well-formed
  \<^verbatim>\<open>data-entity-urn\<close>, namely the fourth colon-separated segment of that attribute, in
  document order; every other list item is passed over and the scan goes on.
\<close>

theorem get_job_ids_first_card:
  assumes "http (Listing title location start) = Inr resp"
    and "\<not> transport_failure (Inr resp)"
    and "response_text resp = Parsed list_soup"
  shows "\<exists>ids. get_job_ids http title location start = Inr ids
           \<and> ids = map entry_id (filter valid_entry (find_all ''li'' list_soup))
           \<and> length ids = length (filter valid_entry (find_all ''li'' list_soup))"
  using get_job_ids_ok[of http title location start resp list_soup] assms by simp

text \<open>
  On the sample listing page, five list items of which two are valid, the identifiers
  are those of the two, in order.
\<close>

theorem get_job_ids_first_card_witness:
  "(\<lambda>req. ok_response listing_page) (Listing ''Python Developer'' ''Toronto'' 0)
     = Inr \<lparr> status_code = 200, response_text = Parsed listing_page \<rparr>
   \<and> \<not> transport_failure (Inr \<lparr> status_code = 200, response_text = Parsed listing_page \<rparr>)
   \<and> length (find_all ''li'' listing_page) = 5
   \<and> length (filter valid_entry (find_all ''li'' listing_page)) = 2
   \<and> get_job_ids (\<lambda>req. ok_response listing_page) ''Python Developer'' ''Toronto'' 0
       = Inr [''123'', ''456'']"
proof -
  let ?resp = "\<lparr> status_code = 200, response_text = Parsed listing_page \<rparr>"
  have h1: "(\<lambda>req. ok_response listing_page) (Listing ''Python Developer'' ''Toronto'' 0) = Inr ?resp"
    by (simp add: ok_response_def status_response_def)
  have h2: "\<not> transport_failure (Inr ?resp)"
    by (simp add: transport_failure_def)
  have h3: "response_text ?resp = Parsed listing_page" by simp
  have n: "length (find_all ''li'' listing_page) = 5" by code_simp
  have v: "length (filter valid_entry (find_all ''li'' listing_page)) = 2" by code_simp
  have ids: "map entry_id (filter valid_entry (find_all ''li'' listing_page)) = [''123'', ''456'']"
    by code_simp
  from get_job_ids_first_card[of "\<lambda>req. ok_response listing_page" "''Python Developer''" "''Toronto''" 0 ?resp listing_page]
    h1 h2 h3 ids
  have "get_job_ids (\<lambda>req. ok_response listing_page) ''Python Developer'' ''Toronto'' 0
       = Inr [''123'', ''456'']" by simp
  with h1 h2 n v show ?thesis by blast
qed

text \<open>
  C1 as it is worded counts every list item that contains some nested \<^verbatim>\<open>div\<close> of class
  \<^verbatim>\<open>base-card\<close> with a well-formed attribute. A list item whose first such \<^verbatim>\<open>div\<close> lacks
  the attribute and whose second carries it is one such entry, and the scan returns
  no identifier for it.
\<close>

theorem get_job_ids_second_card_counterexample:
  "length (filter has_valid_card (find_all ''li'' two_card_page)) = 1
   \<and> get_job_ids (\<lambda>req. ok_response two_card_page) ''Python Developer'' ''Toronto'' 0 = Inr []"
  by code_simp

text \<open>
  C9. An entry whose attribute ends in the delimiter is well formed, its fourth segment
  is the empty string, and \<open>get_job_ids\<close> returns the empty string as an identifier.
\<close>

theorem get_job_ids_empty_identifier:
  "well_formed_urn (Some (Str ''urn:li:jobPosting:''))
   \<and> fourth_segment (Some (Str ''urn:li:jobPosting:'')) = []
   \<and> get_job_ids (\<lambda>req. ok_response trailing_colon_page) ''Python Developer'' ''Toronto'' 0 = Inr [[]]"
  by code_simp

section \<open>Claims about the detail fetcher\<close>

text \<open>
  C2, as the code has it. For every detail response that is not a transport failure
  and whose text the parser makes a tree of, \<open>scrape_job_details\<close> returns a record
  with the six keys in their order and the identifier it was given; each of the five
  other fields is null exactly when no element with its tag name and class is on the
  page, and is otherwise the stripped text of the first such element (the empty string
  when that element has no text). So the number of null fields is the number of absent
  elements.
\<close>

theorem scrape_job_details_null_iff_absent:
  assumes "http (Detail job_id) = Inr resp" and "\<not> transport_failure (Inr resp)"
    and "response_text resp = Parsed job_soup"
  shows "\<exists>d. scrape_job_details http job_id = Inr d
    \<and> map fst d = field_names
    \<and> map_of d ''job_id'' = Some (Some job_id)
    \<and> (\<forall>(key, name, cls) \<in> set field_specs.
          (map_of d key = Some None \<longleftrightarrow> find_elem name cls job_soup = None)
        \<and> (\<forall>e. find_elem name cls job_soup = Some e \<longrightarrow>
               map_of d key = Some (Some (strip (get_text e)))))
    \<and> length (filter (\<lambda>kv. snd kv = None) d) =
        length (filter (\<lambda>(key, name, cls). find_elem name cls job_soup = None) field_specs)"
proof -
  let ?d = "page_record job_id job_soup"
  have 1: "scrape_job_details http job_id = Inr ?d"
    using scrape_job_details_ok[of http job_id resp job_soup] assms by simp
  have 2: "map fst ?d = field_names" by (simp add: page_record_def field_names_def)
  have 3: "map_of ?d ''job_id'' = Some (Some job_id)" by (simp add: page_record_def)
  have 4: "\<forall>(key, name, cls) \<in> set field_specs.
          (map_of ?d key = Some None \<longleftrightarrow> find_elem name cls job_soup = None)
        \<and> (\<forall>e. find_elem name cls job_soup = Some e \<longrightarrow>
               map_of ?d key = Some (Some (strip (get_text e))))"
    using page_record_lookup[of _ _ _ job_id job_soup]
    by (auto simp: field_value_None_iff field_value_Some)
  have 5: "length (filter (\<lambda>kv. snd kv = None) ?d) =
        length (filter (\<lambda>(key, name, cls). find_elem name cls job_soup = None) field_specs)"
    by (simp only: page_record_nulls length_map field_value_None_iff)
  from 1 2 3 4 5 show ?thesis by blast
qed

text \<open>
  On a page whose title element has no text and that lacks the applicant count, one
  field is null: the applicant count.
\<close>

theorem scrape_job_details_null_iff_absent_witness:
  "(\<lambda>req. ok_response untitled_page) (Detail ''123'')
     = Inr \<lparr> status_code = 200, response_text = Parsed untitled_page \<rparr>
   \<and> \<not> transport_failure (Inr \<lparr> status_code = 200, response_text = Parsed untitled_page \<rparr>)
   \<and> (\<exists>d. scrape_job_details (\<lambda>req. ok_response untitled_page) ''123'' = Inr d
         \<and> map fst d = field_names
         \<and> map_of d ''job_id'' = Some (Some ''123'')
         \<and> map_of d ''num_applicants'' = Some None
         \<and> length (filter (\<lambda>kv. snd kv = None) d) = 1)"
proof -
  let ?resp = "\<lparr> status_code = 200, response_text = Parsed untitled_page \<rparr>"
  have h1: "(\<lambda>req. ok_response untitled_page) (Detail ''123'') = Inr ?resp"
    by (simp add: ok_response_def status_response_def)
  have h2: "\<not> transport_failure (Inr ?resp)" by (simp add: transport_failure_def)
  have h3: "response_text ?resp = Parsed untitled_page" by simp
  have a: "find_elem ''span'' applicants_class untitled_page = None" by code_simp
  have n: "length (filter (\<lambda>(key, name, cls). find_elem name cls untitled_page = None) field_specs) = 1"
    by code_simp
  have s: "(''num_applicants'', ''span'', applicants_class) \<in> set field_specs"
    by (simp add: field_specs_def)
  from scrape_job_details_null_iff_absent[of "\<lambda>req. ok_response untitled_page" "''123''" ?resp untitled_page]
    h1 h2 h3
  obtain d where d: "scrape_job_details (\<lambda>req. ok_response untitled_page) ''123'' = Inr d"
      "map fst d = field_names" "map_of d ''job_id'' = Some (Some ''123'')"
      "\<forall>(key, name, cls) \<in> set field_specs.
          (map_of d key = Some None \<longleftrightarrow> find_elem name cls untitled_page = None)
        \<and> (\<forall>e. find_elem name cls untitled_page = Some e \<longrightarrow>
               map_of d key = Some (Some (strip (get_text e))))"
      "length (filter (\<lambda>kv. snd kv = None) d) =
        length (filter (\<lambda>(key, name, cls). find_elem name cls untitled_page = None) field_specs)"
    by blast
  from d(4) s a have "map_of d ''num_applicants'' = Some None" by fastforce
  moreover from d(5) n have "length (filter (\<lambda>kv. snd kv = None) d) = 1" by simp
  ultimately show ?thesis using h1 h2 d(1,2,3) by blast
qed

text \<open>
  C2 as it is worded counts a field as missing also when its element is there and has
  no text content, and says such a field is null. On that page the title is missing in
  this sense, and its field is the empty string, not null.
\<close>

theorem scrape_job_details_empty_text_counterexample:
  "missing_field ''h2'' title_class untitled_page
   \<and> scrape_job_details (\<lambda>req. ok_response untitled_page) ''123'' =
       Inr [(''job_id'', Some ''123''), (''job_title'', Some []), (''company_name'', Some ''Acme''),
            (''time_posted'', Some ''2 days ago''), (''num_applicants'', None),
            (''location'', Some ''Toronto'')]"
  by code_simp

section \<open>Claims about failures\<close>

text \<open>
  C3, as the code has it. When the listing request meets a transport failure, that is
  \<^verbatim>\<open>requests.get\<close> raises or the status is one of 400 to 599, \<open>get_job_ids\<close> returns
  the empty list and raises nothing; when a detail request meets one,
  \<open>scrape_job_details\<close> returns the record with the identifier it was given and the
  five other fields null, and raises nothing.
\<close>

theorem transport_failure_contained:
  "(transport_failure (http (Listing title location start)) \<longrightarrow>
      get_job_ids http title location start = Inr [])
   \<and> (transport_failure (http (Detail job_id)) \<longrightarrow>
      scrape_job_details http job_id =
        Inr [(''job_id'', Some job_id), (''job_title'', None), (''company_name'', None),
             (''time_posted'', None), (''num_applicants'', None), (''location'', None)])"
  using get_job_ids_failure[of http title location start]
    scrape_job_details_failure[of http job_id]
  by (simp add: null_record_def)

text \<open>A refused connection on the listing request, and the status 404 on a detail request.\<close>

theorem transport_failure_contained_witness:
  "transport_failure (http_get offline_world 0 (Listing ''Python Developer'' ''Toronto'' 0))
   \<and> get_job_ids (http_get offline_world 0) ''Python Developer'' ''Toronto'' 0 = Inr []
   \<and> transport_failure (http_get flaky_world 1 (Detail ''123''))
   \<and> scrape_job_details (http_get flaky_world 1) ''123'' =
        Inr [(''job_id'', Some ''123''), (''job_title'', None), (''company_name'', None),
             (''time_posted'', None), (''num_applicants'', None), (''location'', None)]"
proof -
  have h1: "transport_failure (http_get offline_world 0 (Listing ''Python Developer'' ''Toronto'' 0))"
    by (simp add: offline_world_def transport_failure_def)
  have h2: "transport_failure (http_get flaky_world 1 (Detail ''123''))"
    by (simp add: flaky_world_def transport_failure_def status_response_def)
  from h1 transport_failure_contained[of "http_get offline_world 0" "''Python Developer''" "''Toronto''" 0]
  have c1: "get_job_ids (http_get offline_world 0) ''Python Developer'' ''Toronto'' 0 = Inr []"
    by blast
  from h2 transport_failure_contained[of "http_get flaky_world 1" _ _ _ "''123''"]
  have c2: "scrape_job_details (http_get flaky_world 1) ''123'' =
        Inr [(''job_id'', Some ''123''), (''job_title'', None), (''company_name'', None),
             (''time_posted'', None), (''num_applicants'', None), (''location'', None)]"
    by blast
  from h1 c1 h2 c2 show ?thesis by blast
qed

text \<open>
  C3 as it is worded covers every status that is not a success. The statuses 304 and
  999 are not, \<open>raise_for_status\<close> raises for neither, and the text is parsed as on
  success: the listing fetcher returns the identifiers of the page and the detail
  fetcher a record with every field set.
\<close>

theorem transport_failure_other_status_counterexample:
  "\<not> success_status 304
   \<and> get_job_ids (\<lambda>req. status_response 304 listing_page) ''Python Developer'' ''Toronto'' 0
       = Inr [''123'', ''456'']
   \<and> \<not> success_status 999
   \<and> scrape_job_details (\<lambda>req. status_response 999 (full_page ''Python Developer'')) ''123'' =
       Inr [(''job_id'', Some ''123''), (''job_title'', Some ''Python Developer''),
            (''company_name'', Some ''Acme''), (''time_posted'', Some ''2 days ago''),
            (''num_applicants'', Some ''25 applicants''),
            (''location'', Some ''Toronto, Ontario, Canada'')]"
  by code_simp

text \<open>
  C10. Whatever the search returns, the conditional expression of a field raises
  nothing, so the handler of \<^verbatim>\<open>AttributeError\<close> is never entered: the value that the
  \<^verbatim>\<open>try\<close> block assigns is the value of the guarded expression.
\<close>

theorem attribute_error_handler_unreachable:
  "(\<exists>v. field_expr elem = Inr v)
   \<and> (\<exists>v. field_expr (find_elem name cls job_soup) = Inr v
          \<and> try_field key name cls job_soup job_post = Inr (setitem job_post key v))"
  by (auto simp: field_expr_def elem_truthy_def text_strip_def try_field_def split: option.splits)

section \<open>Claims about the run\<close>

text \<open>
  C5. When the listing fetch yields no identifier, the run ends at once: nothing is
  scraped, no detail request and no delay happens, and no file is written.
\<close>

theorem main_no_ids_no_file:
  assumes "get_job_ids (http_get w 0) ''Python Developer'' ''Toronto'' 0 = Inr []"
  shows "main w = Inr \<lparr> scraped = [], trace = [], output_file = None \<rparr>"
  using assms by (simp add: main_def)

theorem main_no_ids_no_file_witness:
  "get_job_ids (http_get offline_world 0) ''Python Developer'' ''Toronto'' 0 = Inr []
   \<and> main offline_world = Inr \<lparr> scraped = [], trace = [], output_file = None \<rparr>"
proof -
  have h: "get_job_ids (http_get offline_world 0) ''Python Developer'' ''Toronto'' 0 = Inr []"
    by (simp add: offline_world_def get_job_ids_def get_job_ids_try_def)
  from main_no_ids_no_file[OF h] h show ?thesis by simp
qed

text \<open>
  C6, as the code has it. When the listing fetch yields identifiers and the markup
  parser accepts the text of every detail response it is given, the run completes
  without an exception and has scraped exactly one record per identifier, in order,
  each holding its identifier, however many detail requests meet a transport failure.
\<close>

theorem main_one_record_per_id:
  assumes "get_job_ids (http_get w 0) ''Python Developer'' ''Toronto'' 0 = Inr id_list"
    and "id_list \<noteq> []"
    and "\<forall>k<length id_list. parser_accepts (http_get w (Suc k) (Detail (id_list ! k)))"
  shows "\<exists>out. main w = Inr out
           \<and> length (scraped out) = length id_list
           \<and> map (\<lambda>d. map_of d ''job_id'') (scraped out) = map (\<lambda>i. Some (Some i)) id_list"
proof -
  let ?vs = "visits w 1 id_list"
  have acc: "parser_accepts (http_get w (fst v) (Detail (snd v)))" if "v \<in> set ?vs" for v
  proof -
    from that obtain k where k: "k < length ?vs" "?vs ! k = v" by (auto simp: in_set_conv_nth)
    then have "k < length id_list" by (simp add: length_visits)
    then show ?thesis using k(2) nth_visits[of k id_list w 1] assms(3) by auto
  qed
  have "map (\<lambda>d. map_of d ''job_id'') (map (visit_record w) ?vs)
        = map (\<lambda>v. Some (Some (snd v))) ?vs"
    using acc by (simp add: visit_record_def job_id_detail_record)
  also have "\<dots> = map (\<lambda>i. Some (Some i)) (map snd ?vs)"
    by (simp add: comp_def)
  finally have "map (\<lambda>d. map_of d ''job_id'') (map (visit_record w) ?vs)
        = map (\<lambda>i. Some (Some i)) id_list"
    by (simp only: map_snd_visits)
  then show ?thesis using main_nonempty[OF assms] by (simp add: length_visits)
qed

text \<open>A run in which both detail requests fail still yields two records.\<close>

theorem main_one_record_per_id_witness:
  "get_job_ids (http_get flaky_world 0) ''Python Developer'' ''Toronto'' 0 = Inr [''123'', ''456'']
   \<and> [''123'', ''456''] \<noteq> ([] :: string list)
   \<and> transport_failure (http_get flaky_world 1 (Detail ''123''))
   \<and> transport_failure (http_get flaky_world 2 (Detail ''456''))
   \<and> parser_accepts (http_get flaky_world 1 (Detail ''123''))
   \<and> parser_accepts (http_get flaky_world 2 (Detail ''456''))
   \<and> (\<exists>out. main flaky_world = Inr out
           \<and> length (scraped out) = length [''123'', ''456'']
           \<and> map (\<lambda>d. map_of d ''job_id'') (scraped out) = map (\<lambda>i. Some (Some i)) [''123'', ''456''])"
proof -
  have h: "get_job_ids (http_get flaky_world 0) ''Python Developer'' ''Toronto'' 0 = Inr [''123'', ''456'']"
    by code_simp
  have f1: "transport_failure (http_get flaky_world 1 (Detail ''123''))"
    by (simp add: flaky_world_def transport_failure_def status_response_def)
  have f2: "transport_failure (http_get flaky_world 2 (Detail ''456''))"
    by (simp add: flaky_world_def transport_failure_def)
  have p1: "parser_accepts (http_get flaky_world 1 (Detail ''123''))"
    by (simp add: flaky_world_def parser_accepts_def transport_failure_def status_response_def)
  have p2: "parser_accepts (http_get flaky_world 2 (Detail ''456''))"
    by (simp add: flaky_world_def parser_accepts_def)
  have acc: "\<forall>k<length [''123'', ''456''].
      parser_accepts (http_get flaky_world (Suc k) (Detail ([''123'', ''456''] ! k)))"
  proof (intro allI impI)
    fix k :: nat assume "k < length [''123'', ''456'']"
    then have "k = 0 \<or> k = 1" by auto
    then show "parser_accepts (http_get flaky_world (Suc k) (Detail ([''123'', ''456''] ! k)))"
      using p1 p2 by (auto simp: numeral_2_eq_2)
  qed
  from main_one_record_per_id[OF h _ acc] h f1 f2 p1 p2 show ?thesis by simp
qed

text \<open>
  C6 as it is worded has the run complete whatever happens to a record. A detail
  response with status 200 whose text the parser rejects raises an exception that no
  handler catches: the run ends there with that exception and writes nothing.
\<close>

theorem main_parser_rejects_counterexample:
  "get_job_ids (http_get rejecting_world 0) ''Python Developer'' ''Toronto'' 0 = Inr [''123'', ''456'']
   \<and> scrape_job_details (http_get rejecting_world 1) ''123'' = Inl ParserRejectedMarkup
   \<and> main rejecting_world = Inl ParserRejectedMarkup"
proof -
  have h: "get_job_ids (http_get rejecting_world 0) ''Python Developer'' ''Toronto'' 0 = Inr [''123'', ''456'']"
    by code_simp
  have s: "scrape_job_details (http_get rejecting_world 1) ''123'' = Inl ParserRejectedMarkup"
    by code_simp
  have "main rejecting_world = Inl ParserRejectedMarkup"
    using h s by (simp add: main_def)
  with h s show ?thesis by simp
qed



section \<open>Claims about the file\<close>

text \<open>
  C7, as the code has it. For every non-empty list of records with the six fields such
  that the csv writer quotes every field holding a line break, reading back the file
  that \<open>to_csv\<close> writes gives the header row and then one row per record, whose
  fields are the string representations of the record's values, null being the empty
  string. The writer does so for all records when it quotes every line break or the
  line terminator is CR LF.
\<close>

theorem to_csv_round_trip:
  assumes "ls = [LF] \<or> ls = [CR, LF]"
    and "data \<noteq> []"
    and "\<forall>d\<in>set data. map fst d = field_names"
    and "breaks_quoted qb ls (map record_row data)"
  shows "read_csv (to_csv qb ls (DataFrame data)) = field_names # map record_row data
         \<and> length (tl (read_csv (to_csv qb ls (DataFrame data)))) = length data"
proof -
  have "breaks_quoted qb ls (field_names # map record_row data)"
    using assms(4) by (simp only: breaks_quoted_header)
  then have "read_csv (to_csv qb ls (DataFrame data)) = field_names # map record_row data"
    unfolding to_csv_DataFrame[OF assms(2,3)] by (rule read_writerows[OF assms(1)])
  then show ?thesis by simp
qed

text \<open>
  Two records, one with five null fields and one with a delimiter, quote characters
  and line breaks in its text, written with the line terminator CR LF by a writer that
  quotes no other line break.
\<close>

theorem to_csv_round_trip_witness:
  "([CR, LF] = [LF] \<or> [CR, LF] = [CR, LF])
   \<and> [null_record ''123'', awkward_record] \<noteq> []
   \<and> map fst (null_record ''123'') = field_names
   \<and> map fst awkward_record = field_names
   \<and> breaks_quoted False [CR, LF] (map record_row [null_record ''123'', awkward_record])
   \<and> read_csv (to_csv False [CR, LF] (DataFrame [null_record ''123'', awkward_record]))
       = [field_names,
          [''123'', [], [], [], [], []],
          [''456'', ''Developer, '' @ [quotechar] @ ''senior'' @ [quotechar, LF] @ ''remote'' @ [CR] @ ''x'',
           [], [], [quotechar], ''Toronto, Ontario, Canada'']]
   \<and> length (tl (read_csv (to_csv False [CR, LF] (DataFrame [null_record ''123'', awkward_record])))) = 2"
proof -
  have k1: "map fst (null_record ''123'') = field_names" by code_simp
  have k2: "map fst awkward_record = field_names" by code_simp
  have b: "breaks_quoted False [CR, LF] (map record_row [null_record ''123'', awkward_record])"
    by (rule breaks_quoted_crlf)
  have r: "map record_row [null_record ''123'', awkward_record] =
     [[''123'', [], [], [], [], []],
      [''456'', ''Developer, '' @ [quotechar] @ ''senior'' @ [quotechar, LF] @ ''remote'' @ [CR] @ ''x'',
       [], [], [quotechar], ''Toronto, Ontario, Canada'']]" by code_simp
  from to_csv_round_trip[of "[CR, LF]" "[null_record ''123'', awkward_record]" False] k1 k2 b
  have "read_csv (to_csv False [CR, LF] (DataFrame [null_record ''123'', awkward_record]))
          = field_names # map record_row [null_record ''123'', awkward_record]
        \<and> length (tl (read_csv (to_csv False [CR, LF] (DataFrame [null_record ''123'', awkward_record]))))
          = length [null_record ''123'', awkward_record]"
    by simp
  with k1 k2 b r show ?thesis by simp
qed

text \<open>
  C7 as it is worded holds of every list of records. With the line terminator LF and a
  writer that quotes only the delimiter, the quote character and the terminator, a
  title that holds a carriage return is written bare, and the file of one record reads
  back as two rows.
\<close>

theorem to_csv_bare_cr_counterexample:
  "map fst bare_cr_record = field_names
   \<and> record_row bare_cr_record = [''123'', ''a'' @ [CR] @ ''b'', ''Acme'', [], [], ''Toronto'']
   \<and> read_csv (to_csv False [LF] (DataFrame [bare_cr_record]))
       = [field_names, [''123'', ''a''], [''b'', ''Acme'', [], [], ''Toronto'']]
   \<and> length (tl (read_csv (to_csv False [LF] (DataFrame [bare_cr_record])))) = 2"
  by code_simp

text \<open>
  C4, as the code has it. When the listing fetch yields identifiers and the markup
  parser accepts the text of every detail response it is given, the run writes one
  file, named \<^verbatim>\<open>Toronto_Python_Developer_jobs.csv\<close> after the configured location and title
  with spaces replaced by underscores. The writer is given the header row of the six
  field names and then one row per record in the order of the identifiers; each row has
  six columns in the order of the field names and starts with its identifier, and the
  row of a non-empty identifier whose detail fetch fully succeeds has no empty column.
  When the writer quotes every field holding a line break, the file read back is
  exactly these rows.
\<close>

theorem main_writes_table:
  assumes "get_job_ids (http_get w 0) ''Python Developer'' ''Toronto'' 0 = Inr id_list"
    and "id_list \<noteq> []"
    and "linesep w = [LF] \<or> linesep w = [CR, LF]"
    and "\<forall>k<length id_list. parser_accepts (http_get w (Suc k) (Detail (id_list ! k)))"
  shows "\<exists>out content. main w = Inr out
    \<and> output_file out = Some (''Toronto_Python_Developer_jobs.csv'', content)
    \<and> content = concat (map (writerow (csv_quotes_breaks w) (linesep w))
                   (field_names # map record_row (scraped out)))
    \<and> (breaks_quoted (csv_quotes_breaks w) (linesep w) (map record_row (scraped out))
          \<longrightarrow> read_csv content = field_names # map record_row (scraped out))
    \<and> length (scraped out) = length id_list
    \<and> (\<forall>k<length id_list.
          scrape_job_details (http_get w (Suc k)) (id_list ! k) = Inr (scraped out ! k)
        \<and> hd (record_row (scraped out ! k)) = id_list ! k
        \<and> length (record_row (scraped out ! k)) = 6
        \<and> (id_list ! k \<noteq> [] \<and> fully_succeeds (http_get w (Suc k)) (id_list ! k)
              \<longrightarrow> [] \<notin> set (record_row (scraped out ! k))))"
proof -
  define vs where "vs = visits w 1 id_list"
  define data where "data = map (visit_record w) vs"
  define content where "content = to_csv (csv_quotes_breaks w) (linesep w) (DataFrame data)"
  define out where "out = \<lparr> scraped = data, trace = concat (map (visit_events w) vs),
           output_file = Some (output_filename ''Toronto'' ''Python Developer'', content) \<rparr>"
  have m: "main w = Inr out"
    using main_nonempty[OF assms(1,2,4)] by (simp add: out_def content_def data_def vs_def)
  have sd: "scraped out = data" by (simp add: out_def)
  have f: "output_file out = Some (''Toronto_Python_Developer_jobs.csv'', content)"
    by (simp add: out_def output_filename_configured)
  have ne: "data \<noteq> []" using assms(2) by (simp add: data_def vs_def visits_Nil_iff)
  have acc: "parser_accepts (http_get w (fst v) (Detail (snd v)))" if "v \<in> set vs" for v
  proof -
    from that obtain k where k: "k < length vs" "vs ! k = v" by (auto simp: in_set_conv_nth)
    then have "k < length id_list" by (simp add: vs_def length_visits)
    then show ?thesis using k(2) nth_visits[of k id_list w 1] assms(4) by (auto simp: vs_def)
  qed
  have keys: "\<forall>d\<in>set data. map fst d = field_names"
    using acc by (auto simp: data_def visit_record_def keys_detail_record)
  have c: "content = concat (map (writerow (csv_quotes_breaks w) (linesep w))
                       (field_names # map record_row (scraped out)))"
    unfolding sd content_def by (rule to_csv_DataFrame[OF ne keys])
  have r: "read_csv content = field_names # map record_row (scraped out)"
    if "breaks_quoted (csv_quotes_breaks w) (linesep w) (map record_row (scraped out))"
  proof -
    from that have "breaks_quoted (csv_quotes_breaks w) (linesep w)
        (field_names # map record_row (scraped out))"
      by (simp only: breaks_quoted_header)
    then show ?thesis by (subst c) (rule read_writerows[OF assms(3)])
  qed
  have l: "length (scraped out) = length id_list"
    by (simp add: sd data_def vs_def length_visits)
  have each: "scrape_job_details (http_get w (Suc k)) (id_list ! k) = Inr (scraped out ! k)
        \<and> hd (record_row (scraped out ! k)) = id_list ! k
        \<and> length (record_row (scraped out ! k)) = 6
        \<and> (id_list ! k \<noteq> [] \<and> fully_succeeds (http_get w (Suc k)) (id_list ! k)
              \<longrightarrow> [] \<notin> set (record_row (scraped out ! k)))"
    if k: "k < length id_list" for k
  proof -
    have v: "vs ! k = (Suc k, id_list ! k)" using nth_visits[OF k, of w 1] by (simp add: vs_def)
    have kk: "k < length vs" using k by (simp add: vs_def length_visits)
    have a: "parser_accepts (http_get w (Suc k) (Detail (id_list ! k)))" using assms(4) k by blast
    have s: "scraped out ! k = detail_record (http_get w (Suc k)) (id_list ! k)"
      using kk v by (simp add: sd data_def visit_record_def)
    show ?thesis unfolding s
      using record_row_detail_shape[of "http_get w (Suc k)" "id_list ! k"] a
        record_row_populated[of "http_get w (Suc k)" "id_list ! k"]
        scrape_job_details_record[of "http_get w (Suc k)" "id_list ! k"]
      by simp
  qed
  from m f c r l each show ?thesis by blast
qed

text \<open>
  The identifiers 123 and 456 with both detail fetches fully succeeding: the file reads
  back as the header row and two rows, in that order, with all six columns populated.
\<close>

theorem main_writes_table_witness:
  "get_job_ids (http_get good_world 0) ''Python Developer'' ''Toronto'' 0 = Inr [''123'', ''456'']
   \<and> [''123'', ''456''] \<noteq> ([] :: string list)
   \<and> (linesep good_world = [LF] \<or> linesep good_world = [CR, LF])
   \<and> parser_accepts (http_get good_world 1 (Detail ''123''))
   \<and> parser_accepts (http_get good_world 2 (Detail ''456''))
   \<and> fully_succeeds (http_get good_world 1) ''123''
   \<and> fully_succeeds (http_get good_world 2) ''456''
   \<and> (\<exists>out content. main good_world = Inr out
         \<and> output_file out = Some (''Toronto_Python_Developer_jobs.csv'', content)
         \<and> read_csv content =
             [[''job_id'', ''job_title'', ''company_name'', ''time_posted'', ''num_applicants'', ''location''],
              [''123'', ''Python Developer'', ''Acme'', ''2 days ago'', ''25 applicants'', ''Toronto, Ontario, Canada''],
              [''456'', ''Data Engineer'', ''Acme'', ''2 days ago'', ''25 applicants'', ''Toronto, Ontario, Canada'']]
         \<and> [] \<notin> set (record_row (scraped out ! 0))
         \<and> [] \<notin> set (record_row (scraped out ! 1)))"
proof -
  have h: "get_job_ids (http_get good_world 0) ''Python Developer'' ''Toronto'' 0 = Inr [''123'', ''456'']"
    by code_simp
  have ls: "linesep good_world = [LF] \<or> linesep good_world = [CR, LF]"
    by (simp add: good_world_def)
  have qb: "csv_quotes_breaks good_world" by (simp add: good_world_def)
  have p1: "parser_accepts (http_get good_world 1 (Detail ''123''))" by code_simp
  have p2: "parser_accepts (http_get good_world 2 (Detail ''456''))" by code_simp
  have f1: "fully_succeeds (http_get good_world 1) ''123''" by code_simp
  have f2: "fully_succeeds (http_get good_world 2) ''456''" by code_simp
  have r1: "record_row (detail_record (http_get good_world 1) ''123'') =
     [''123'', ''Python Developer'', ''Acme'', ''2 days ago'', ''25 applicants'', ''Toronto, Ontario, Canada'']"
    by code_simp
  have r2: "record_row (detail_record (http_get good_world 2) ''456'') =
     [''456'', ''Data Engineer'', ''Acme'', ''2 days ago'', ''25 applicants'', ''Toronto, Ontario, Canada'']"
    by code_simp
  have acc: "\<forall>k<length [''123'', ''456''].
      parser_accepts (http_get good_world (Suc k) (Detail ([''123'', ''456''] ! k)))"
  proof (intro allI impI)
    fix k :: nat assume "k < length [''123'', ''456'']"
    then have "k = 0 \<or> k = 1" by auto
    then show "parser_accepts (http_get good_world (Suc k) (Detail ([''123'', ''456''] ! k)))"
      using p1 p2 by (auto simp: numeral_2_eq_2)
  qed
  from main_writes_table[OF h _ ls acc] obtain out content where out:
    "main good_world = Inr out"
    "output_file out = Some (''Toronto_Python_Developer_jobs.csv'', content)"
    "breaks_quoted (csv_quotes_breaks good_world) (linesep good_world) (map record_row (scraped out))
          \<longrightarrow> read_csv content = field_names # map record_row (scraped out)"
    "length (scraped out) = length [''123'', ''456'']"
    "\<forall>k<length [''123'', ''456''].
          scrape_job_details (http_get good_world (Suc k)) ([''123'', ''456''] ! k) = Inr (scraped out ! k)
        \<and> hd (record_row (scraped out ! k)) = [''123'', ''456''] ! k
        \<and> length (record_row (scraped out ! k)) = 6
        \<and> ([''123'', ''456''] ! k \<noteq> [] \<and> fully_succeeds (http_get good_world (Suc k)) ([''123'', ''456''] ! k)
              \<longrightarrow> [] \<notin> set (record_row (scraped out ! k)))"
    by blast
  have rd: "read_csv content = field_names # map record_row (scraped out)"
    using out(3) qb breaks_quoted_always by simp
  have d1: "scrape_job_details (http_get good_world 1) ''123''
      = Inr (detail_record (http_get good_world 1) ''123'')"
    using scrape_job_details_record[of "http_get good_world 1" "''123''"] p1 by blast
  have d2: "scrape_job_details (http_get good_world 2) ''456''
      = Inr (detail_record (http_get good_world 2) ''456'')"
    using scrape_job_details_record[of "http_get good_world 2" "''456''"] p2 by blast
  from out(5)[rule_format, of 0] f1 d1
  have s0: "scraped out ! 0 = detail_record (http_get good_world 1) ''123''"
    and p0: "[] \<notin> set (record_row (scraped out ! 0))"
    by (simp_all add: numeral_2_eq_2)
  from out(5)[rule_format, of 1] f2 d2
  have s1: "scraped out ! 1 = detail_record (http_get good_world 2) ''456''"
    and p1': "[] \<notin> set (record_row (scraped out ! 1))"
    by (simp_all add: numeral_2_eq_2)
  from out(4) obtain a b where ab: "scraped out = [a, b]"
    by (cases "scraped out"; cases "tl (scraped out)"; cases "tl (tl (scraped out))") auto
  with s0 s1 have "map record_row (scraped out) =
     [[''123'', ''Python Developer'', ''Acme'', ''2 days ago'', ''25 applicants'', ''Toronto, Ontario, Canada''],
      [''456'', ''Data Engineer'', ''Acme'', ''2 days ago'', ''25 applicants'', ''Toronto, Ontario, Canada'']]"
    using r1 r2 by simp
  with rd have rows: "read_csv content =
             [[''job_id'', ''job_title'', ''company_name'', ''time_posted'', ''num_applicants'', ''location''],
              [''123'', ''Python Developer'', ''Acme'', ''2 days ago'', ''25 applicants'', ''Toronto, Ontario, Canada''],
              [''456'', ''Data Engineer'', ''Acme'', ''2 days ago'', ''25 applicants'', ''Toronto, Ontario, Canada'']]"
    by (simp add: field_names_def)
  have ne: "[''123'', ''456''] \<noteq> ([] :: string list)" by simp
  from h ne ls p1 p2 f1 f2 out(1,2) rows p0 p1' show ?thesis by blast
qed

text \<open>
  C4 as it is worded has exactly one data row per record in every file. In a run with
  one identifier whose title holds a carriage return, with the line terminator LF and a
  writer that leaves that carriage return bare, the detail fetch fully succeeds and the
  file of the one record reads back as the header row and two rows.
\<close>

theorem main_bare_cr_counterexample:
  "get_job_ids (http_get bare_cr_world 0) ''Python Developer'' ''Toronto'' 0 = Inr [''123'']
   \<and> fully_succeeds (http_get bare_cr_world 1) ''123''
   \<and> (\<exists>out content. main bare_cr_world = Inr out
         \<and> length (scraped out) = 1
         \<and> output_file out = Some (''Toronto_Python_Developer_jobs.csv'', content)
         \<and> read_csv content =
             [[''job_id'', ''job_title'', ''company_name'', ''time_posted'', ''num_applicants'', ''location''],
              [''123'', ''a''],
              [''b'', ''Acme'', ''2 days ago'', ''25 applicants'', ''Toronto, Ontario, Canada'']])"
proof -
  have h: "get_job_ids (http_get bare_cr_world 0) ''Python Developer'' ''Toronto'' 0 = Inr [''123'']"
    by code_simp
  have f: "fully_succeeds (http_get bare_cr_world 1) ''123''" by code_simp
  have p: "parser_accepts (http_get bare_cr_world 1 (Detail ''123''))" by code_simp
  have v: "visits bare_cr_world (Suc 0) [''123''] = [(Suc 0, ''123'')]" by (simp add: visits_def)
  have q: "csv_quotes_breaks bare_cr_world = False" "linesep bare_cr_world = [LF]"
    by (simp_all add: bare_cr_world_def)
  have rd: "read_csv (to_csv False [LF] (DataFrame [detail_record (http_get bare_cr_world 1) ''123''])) =
             [[''job_id'', ''job_title'', ''company_name'', ''time_posted'', ''num_applicants'', ''location''],
              [''123'', ''a''],
              [''b'', ''Acme'', ''2 days ago'', ''25 applicants'', ''Toronto, Ontario, Canada'']]"
    by code_simp
  have "main bare_cr_world =
     Inr \<lparr> scraped = [detail_record (http_get bare_cr_world 1) ''123''],
           trace = visit_events bare_cr_world (1, ''123''),
           output_file = Some (''Toronto_Python_Developer_jobs.csv'',
             to_csv False [LF] (DataFrame [detail_record (http_get bare_cr_world 1) ''123''])) \<rparr>"
    using main_nonempty[OF h] p
    by (simp add: v q visit_record_def output_filename_configured)
  with h f rd show ?thesis by simp
qed

end
